theory Spec2Isabelle
  imports Main "HOL-Library.Monad_Syntax" "HOL-Library.Word"
begin

text \<open>
  The two components of the module, a camera wrapper and a sensor, answer one question: is
  the current instant inside the configured window? The theory embeds the window evaluation,
  the validation of the configuration and the operations of both components, with the
  current instant and the inner camera as arguments. Logging, the conversion of the raw
  configuration and the cancel functions have no part in any result and are left out.
\<close>

section \<open>Instants and wall clocks (the part of Go's \<open>time\<close> package the code uses)\<close>

text \<open>
  A \<open>time.Time\<close> is an absolute instant with nanosecond resolution together with a
  Location. The model keeps the instant as nanoseconds since the Unix epoch and the
  Location as a fixed offset in seconds east of UTC (zones with daylight-saving transitions
  are outside the model). \<open>Before\<close> and \<open>After\<close> compare the instants only, as in Go.
\<close>

record Time =
  unix_nano :: int
  zone_offset :: int

definition Before :: "Time \<Rightarrow> Time \<Rightarrow> bool" where
  "Before t u = (unix_nano t < unix_nano u)"

definition After :: "Time \<Rightarrow> Time \<Rightarrow> bool" where
  "After t u = (unix_nano t > unix_nano u)"

definition Second_ns :: int where
  "Second_ns = 1000000000"

definition Hour_ns :: int where
  "Hour_ns = 3600 * Second_ns"

definition Add :: "Time \<Rightarrow> int \<Rightarrow> Time" where
  "Add t d = t\<lparr>unix_nano := unix_nano t + d\<rparr>"

text \<open>The number of the calendar day of \<open>t\<close> in its own Location (day 0 is 1970-01-01).\<close>

definition local_day :: "Time \<Rightarrow> int" where
  "local_day t = (unix_nano t div Second_ns + zone_offset t) div 86400"

text \<open>
  \<open>time.Date(t.Year(), t.Month(), t.Day(), h, m, s, 0, t.Location())\<close>: the instant at wall
  clock \<open>h:m:s\<close> on the calendar day of \<open>t\<close>, in the Location of \<open>t\<close>.
\<close>

definition Date_on :: "Time \<Rightarrow> nat \<Rightarrow> nat \<Rightarrow> nat \<Rightarrow> Time" where
  "Date_on t h m s =
     \<lparr>unix_nano = (local_day t * 86400 + int h * 3600 + int m * 60 + int s - zone_offset t) * Second_ns,
      zone_offset = zone_offset t\<rparr>"

text \<open>\<open>t.Weekday().String()\<close>; 1970-01-01 was a Thursday, and Go numbers Sunday as 0.\<close>

definition Weekday_String :: "Time \<Rightarrow> string" where
  "Weekday_String t =
     [''Sunday'', ''Monday'', ''Tuesday'', ''Wednesday'', ''Thursday'', ''Friday'', ''Saturday'']
       ! nat ((local_day t + 4) mod 7)"

text \<open>\<open>strings.ToLower\<close> on ASCII text.\<close>

definition ToLower :: "string \<Rightarrow> string" where
  "ToLower s =
     map (\<lambda>c. case map_of (zip ''ABCDEFGHIJKLMNOPQRSTUVWXYZ'' ''abcdefghijklmnopqrstuvwxyz'') c of
                 Some l \<Rightarrow> l | None \<Rightarrow> c) s"

text \<open>
  Days since 1970-01-01 of a date of the proleptic Gregorian calendar, the calendar of
  \<open>time.Date\<close>.
\<close>

definition days_from_civil :: "int \<Rightarrow> int \<Rightarrow> int \<Rightarrow> int" where
  "days_from_civil y m d =
     (let y' = (if m \<le> 2 then y - 1 else y);
          era = y' div 400;
          yoe = y' - era * 400;
          mp = (m + 9) mod 12;
          doy = (153 * mp + 2) div 5 + d - 1;
          doe = yoe * 365 + yoe div 4 - yoe div 100 + doy
      in era * 146097 + doe - 719468)"

definition isLeap :: "nat \<Rightarrow> bool" where
  "isLeap year = (year mod 4 = 0 \<and> (year mod 100 \<noteq> 0 \<or> year mod 400 = 0))"

definition daysIn :: "nat \<Rightarrow> nat \<Rightarrow> nat" where
  "daysIn m year =
     (if m = 2 then (if isLeap year then 29 else 28)
      else if m \<in> {4, 6, 9, 11} then 30 else 31)"

text \<open>
  The zero \<open>time.Time\<close>, which \<open>time.Parse\<close> returns with an error: January 1 of year 1,
  00:00:00 UTC.
\<close>

definition zero_Time :: Time where
  "zero_Time = \<lparr>unix_nano = days_from_civil 1 1 1 * 86400 * Second_ns, zone_offset = 0\<rparr>"

subsection \<open>\<open>time.Parse\<close> on the three layouts of the code\<close>

definition isDigit :: "char \<Rightarrow> bool" where
  "isDigit c = (c \<in> set ''0123456789'')"

definition digit :: "char \<Rightarrow> nat" where
  "digit c = of_char c - 48"

text \<open>\<open>getnum\<close> of the \<open>time\<close> package: one or two decimal digits, exactly two when \<open>fixed\<close>.\<close>

fun getnum :: "string \<Rightarrow> bool \<Rightarrow> (nat \<times> string) option" where
  "getnum [] fixed = None"
| "getnum [c] fixed =
     (if \<not> isDigit c then None else if fixed then None else Some (digit c, []))"
| "getnum (c # d # rest) fixed =
     (if \<not> isDigit c then None
      else if \<not> isDigit d then (if fixed then None else Some (digit c, d # rest))
      else Some (digit c * 10 + digit d, rest))"

text \<open>\<open>skip\<close> for a one-character literal of the layout (none of the layouts has a space).\<close>

fun skip :: "string \<Rightarrow> char \<Rightarrow> string option" where
  "skip [] p = None"
| "skip (c # rest) p = (if c = p then Some rest else None)"

fun atoi_digits :: "string \<Rightarrow> nat" where
  "atoi_digits s = foldl (\<lambda>n c. n * 10 + digit c) 0 s"

text \<open>
  A fractional second in the value where the layout has none: \<open>time.Parse\<close> accepts it after
  the seconds field (a period or comma and at least one digit), and keeps the first nine
  digits as nanoseconds.
\<close>

fun frac_second :: "string \<Rightarrow> nat \<times> string" where
  "frac_second (c # d # rest) =
     (if (c = CHR ''.'' \<or> c = CHR '','') \<and> isDigit d then
        (let ds = take 9 (takeWhile isDigit (d # rest))
         in (atoi_digits ds * 10 ^ (9 - length ds), dropWhile isDigit (d # rest)))
      else (0, c # d # rest))"
| "frac_second v = (0, v)"

record Clock =
  Hour :: nat
  Minute :: nat
  Second :: nat

text \<open>The clock of the zero \<open>time.Time\<close>.\<close>

definition zero_Clock :: Clock where
  "zero_Clock = \<lparr>Hour = 0, Minute = 0, Second = 0\<rparr>"

text \<open>
  \<open>time.Parse("15:04", value)\<close>, as far as the code reads the result: its \<open>Hour()\<close> and
  \<open>Minute()\<close>. \<open>None\<close> is a non-nil error.
\<close>

definition Parse_1504 :: "string \<Rightarrow> Clock option" where
  "Parse_1504 v0 = do {
     (hour, v1) \<leftarrow> getnum v0 False;
     v2 \<leftarrow> skip v1 CHR '':'';
     (minute, v3) \<leftarrow> getnum v2 True;
     if 24 \<le> hour \<or> 60 \<le> minute \<or> v3 \<noteq> [] then None
     else Some \<lparr>Hour = hour, Minute = minute, Second = 0\<rparr>
   }"

text \<open>\<open>time.Parse("15:04:05", value)\<close>: its \<open>Hour()\<close>, \<open>Minute()\<close> and \<open>Second()\<close>.\<close>

definition Parse_150405 :: "string \<Rightarrow> Clock option" where
  "Parse_150405 v0 = do {
     (hour, v1) \<leftarrow> getnum v0 False;
     v2 \<leftarrow> skip v1 CHR '':'';
     (minute, v3) \<leftarrow> getnum v2 True;
     v4 \<leftarrow> skip v3 CHR '':'';
     (sec, v5) \<leftarrow> getnum v4 True;
     if 24 \<le> hour \<or> 60 \<le> minute \<or> 60 \<le> sec \<or> snd (frac_second v5) \<noteq> [] then None
     else Some \<lparr>Hour = hour, Minute = minute, Second = sec\<rparr>
   }"

text \<open>
  The zone of layout element \<open>Z07:00\<close>: \<open>Z\<close>, or a sign, two digits, a colon and two
  digits. The result is the offset in seconds and the rest of the value.
\<close>

fun parse_zone :: "string \<Rightarrow> (int \<times> string) option" where
  "parse_zone [] = None"
| "parse_zone (c # rest) =
     (if c = CHR ''Z'' then Some (0, rest)
      else if length (c # rest) < 6 then None
      else if rest ! 2 \<noteq> CHR '':'' then None
      else do {
        (hr, _) \<leftarrow> getnum (take 2 rest) True;
        (mm, _) \<leftarrow> getnum (take 2 (drop 3 rest)) True;
        if hr > 24 \<or> mm > 60 then None
        else if c = CHR ''+'' then Some (int ((hr * 60 + mm) * 60), drop 5 rest)
        else if c = CHR ''-'' then Some (- int ((hr * 60 + mm) * 60), drop 5 rest)
        else None
      })"

text \<open>
  \<open>time.Parse(time.RFC3339, value)\<close>, layout \<open>2006-01-02T15:04:05Z07:00\<close>: the instant.
  The Location of the result plays no part in the code, which only compares it.
\<close>

definition Parse_RFC3339 :: "string \<Rightarrow> Time option" where
  "Parse_RFC3339 v0 =
     (if length v0 < 4 \<or> \<not> list_all isDigit (take 4 v0) then None
      else do {
        v1 \<leftarrow> skip (drop 4 v0) CHR ''-'';
        (month, v2) \<leftarrow> getnum v1 True;
        v3 \<leftarrow> skip v2 CHR ''-'';
        (day, v4) \<leftarrow> getnum v3 True;
        v5 \<leftarrow> skip v4 CHR ''T'';
        (hour, v6) \<leftarrow> getnum v5 False;
        v7 \<leftarrow> skip v6 CHR '':'';
        (minute, v8) \<leftarrow> getnum v7 True;
        v9 \<leftarrow> skip v8 CHR '':'';
        (sec, v10) \<leftarrow> getnum v9 True;
        (zone, v11) \<leftarrow> parse_zone (snd (frac_second v10));
        (let year = atoi_digits (take 4 v0); nsec = fst (frac_second v10) in
         if month < 1 \<or> 12 < month \<or> 24 \<le> hour \<or> 60 \<le> minute \<or> 60 \<le> sec \<or> v11 \<noteq> []
            \<or> day < 1 \<or> daysIn month year < day then None
         else Some \<lparr>unix_nano =
                      (days_from_civil (int year) (int month) (int day) * 86400
                        + int hour * 3600 + int minute * 60 + int sec - zone) * Second_ns + int nsec,
                    zone_offset = zone\<rparr>)
      })"

section \<open>Errors and dynamic values\<close>

text \<open>
  Every error value the code returns. The configuration errors carry the arguments of their
  \<open>fmt.Errorf\<close> message; \<open>ParseError\<close> is the error of \<open>time.Parse\<close> on the given value;
  \<open>OtherError\<close> is any error of an inner component.
\<close>

datatype error =
    ErrNoCaptureToStore
  | ErrUnimplemented
  | FieldRequired string string
  | NoSchedule string
  | InvalidStartHours string string
  | InvalidEndHours string string
  | MissingWeekly string string
  | WeeklyStartEnd string string
  | InvalidWeeklyStart string string string
  | InvalidWeeklyEnd string string string
  | ScheduleStartInvalid string nat string
  | ScheduleEndInvalid string nat string
  | ScheduleOrder string nat
  | ResolveFailed string string
  | ParseError string
  | OtherError string

text \<open>A value of type \<open>interface{}\<close>, and a \<open>map[string]interface{}\<close> (\<open>None\<close> is the nil map).\<close>

datatype iface = VNil | VBool bool | VString string | VInt int

type_synonym extra = "(string \<times> iface) list option"

text \<open>\<open>extra != nil && extra["fromDataManagement"] == true\<close>\<close>

definition fromDataManagement :: "extra \<Rightarrow> bool" where
  "fromDataManagement extra =
     (case extra of
        None \<Rightarrow> False
      | Some m \<Rightarrow> (case map_of m ''fromDataManagement'' of
                    None \<Rightarrow> VNil = VBool True
                  | Some v \<Rightarrow> v = VBool True))"

section \<open>The sensor (timesyncsensor.go)\<close>

record sensor_Config =
  StartHours :: string
  EndHours :: string

record timeSensor =
  name :: string
  cfg :: sensor_Config

text \<open>
  \<open>Readings\<close> (lines 94 to 133), with the value of \<open>time.Now()\<close> as the argument
  \<open>currentTime\<close> and \<open>Time.Format\<close> on layout \<open>2006-01-02 15:04:05 MST\<close> as the argument
  \<open>format\<close>. The returned map is an association list.
\<close>

definition Readings ::
    "(Time \<Rightarrow> string) \<Rightarrow> timeSensor \<Rightarrow> Time \<Rightarrow> extra \<Rightarrow> error + (string \<times> iface) list" where
  "Readings format s currentTime extra =
     (case Parse_1504 (StartHours (cfg s)) of
        None \<Rightarrow> Inl (ParseError (StartHours (cfg s)))
      | Some st \<Rightarrow>
          (case Parse_1504 (EndHours (cfg s)) of
             None \<Rightarrow> Inl (ParseError (EndHours (cfg s)))
           | Some et \<Rightarrow>
               (let startTime = Date_on currentTime (Hour st) (Minute st) 0;
                    endTime0 = Date_on currentTime (Hour et) (Minute et) 0;
                    overnight = After startTime endTime0;
                    endTime = (if After startTime endTime0 then Add endTime0 (24 * Hour_ns) else endTime0);
                    shouldSync = (\<not> Before currentTime startTime \<and> \<not> After currentTime endTime)
                in Inr [(''should_sync'', VBool shouldSync),
                        (''overnight_time_range'', VBool overnight),
                        (''current_time'', VString (format currentTime)),
                        (''start_time'', VString (format startTime)),
                        (''end_time'', VString (format endTime)),
                        (''currentTime.Before(startTime)'', VBool (Before currentTime startTime)),
                        (''currentTime.After(endTime)'', VBool (After currentTime endTime))])))"

text \<open>
  The \<open>Readings\<close> of the second copy of the sensor in the same file (lines 279 to 301): no
  overnight adjustment, and strict comparisons.
\<close>

definition Readings_within :: "timeSensor \<Rightarrow> Time \<Rightarrow> extra \<Rightarrow> error + (string \<times> iface) list" where
  "Readings_within s currentTime extra =
     (case Parse_1504 (StartHours (cfg s)) of
        None \<Rightarrow> Inl (ParseError (StartHours (cfg s)))
      | Some st \<Rightarrow>
          (case Parse_1504 (EndHours (cfg s)) of
             None \<Rightarrow> Inl (ParseError (EndHours (cfg s)))
           | Some et \<Rightarrow>
               (let startTime = Date_on currentTime (Hour st) (Minute st) 0;
                    endTime = Date_on currentTime (Hour et) (Minute et) 0;
                    withinTimeRange = (After currentTime startTime \<and> Before currentTime endTime)
                in Inr [(''within_time_range'', VBool withinTimeRange)])))"

text \<open>\<open>timeSensor.DoCommand\<close>\<close>

definition sensor_DoCommand :: "timeSensor \<Rightarrow> (string \<times> iface) list option \<Rightarrow> extra \<times> error option" where
  "sensor_DoCommand s cmd = (None, Some ErrUnimplemented)"

section \<open>The stream camera (unnamed/part_000)\<close>

record stream_Config =
  Camera :: string
  StartHours :: string
  EndHours :: string

text \<open>
  The tuple \<open>(image.Image, func(), error)\<close> of \<open>VideoStream.Next\<close>; the image and the release
  function are opaque (\<open>None\<close> is nil).
\<close>

type_synonym ('i, 'r) next_result = "'i option \<times> 'r option \<times> error option"

text \<open>
  A context is modelled by what \<open>camera.FromContext\<close> returns on it: \<open>None\<close> when it carries
  no extra (\<open>ok\<close> false), otherwise the extra map.
\<close>

type_synonym ctx = "extra option"

record ('i, 'r) timedStream =
  cameraStream :: "ctx \<Rightarrow> ('i, 'r) next_result"
  ts_c :: stream_Config

text \<open>
  The tail of \<open>timedStream.Next\<close> (lines 198 to 206): the next image of the inner stream; on
  an error, the image and the release function are dropped.
\<close>

definition next_image :: "('i, 'r) timedStream \<Rightarrow> ctx \<Rightarrow> ('i, 'r) next_result" where
  "next_image ts ctx =
     (case cameraStream ts ctx of
        (img, release, err) \<Rightarrow> if err \<noteq> None then (None, None, err) else (img, release, None))"

text \<open>\<open>timedStream.Next\<close>, with the value of \<open>time.Now()\<close> as the argument \<open>currentTime\<close>.\<close>

definition Next :: "('i, 'r) timedStream \<Rightarrow> Time \<Rightarrow> ctx \<Rightarrow> ('i, 'r) next_result" where
  "Next ts currentTime ctx =
     (case ctx of
        None \<Rightarrow> cameraStream ts ctx
      | Some extra \<Rightarrow>
          if fromDataManagement extra then
            (case Parse_1504 (StartHours (ts_c ts)) of
               None \<Rightarrow> (None, None, Some (ParseError (StartHours (ts_c ts))))
             | Some st \<Rightarrow>
                 (case Parse_1504 (EndHours (ts_c ts)) of
                    None \<Rightarrow> (None, None, Some (ParseError (EndHours (ts_c ts))))
                  | Some et \<Rightarrow>
                      (let startTime = Date_on currentTime (Hour st) (Minute st) 0;
                           endTime0 = Date_on currentTime (Hour et) (Minute et) 0;
                           endTime = (if After startTime endTime0
                                      then Add endTime0 (24 * Hour_ns) else endTime0);
                           inRange = (\<not> Before currentTime startTime \<and> \<not> After currentTime endTime)
                       in if \<not> inRange then (None, None, Some ErrNoCaptureToStore)
                          else next_image ts ctx)))
          else next_image ts ctx)"

section \<open>The camera wrapper (timeselectcamera.go)\<close>

record ScheduleHours =
  Start :: string
  End :: string

record DateRange =
  Start :: string
  End :: string

text \<open>
  \<open>WeeklySchedule\<close> is the decoded JSON object as an association list, read through
  \<open>map_of\<close>; the nil and the empty map are \<open>[]\<close>.
\<close>

record Config =
  Camera :: string
  StartHours :: string
  EndHours :: string
  WeeklySchedule :: "(string \<times> ScheduleHours) list"
  Schedule :: "DateRange list"

text \<open>The loop over the seven weekdays in \<open>Validate\<close>; the result is the first error.\<close>

fun validate_days :: "string \<Rightarrow> (string \<times> ScheduleHours) list \<Rightarrow> string list \<Rightarrow> error option" where
  "validate_days path ws [] = None"
| "validate_days path ws (day # days) =
     (case map_of ws day of
        None \<Rightarrow> Some (MissingWeekly path day)
      | Some sh \<Rightarrow>
          if ScheduleHours.Start sh = [] \<or> ScheduleHours.End sh = [] then Some (WeeklyStartEnd path day)
          else if Parse_150405 (ScheduleHours.Start sh) = None
            then Some (InvalidWeeklyStart path day (ScheduleHours.Start sh))
          else if Parse_150405 (ScheduleHours.End sh) = None
            then Some (InvalidWeeklyEnd path day (ScheduleHours.End sh))
          else validate_days path ws days)"

text \<open>The loop over \<open>cfg.Schedule\<close> in \<open>Validate\<close>, from index \<open>i\<close>.\<close>

fun validate_ranges :: "string \<Rightarrow> nat \<Rightarrow> DateRange list \<Rightarrow> error option" where
  "validate_ranges path i [] = None"
| "validate_ranges path i (dr # rest) =
     (case Parse_RFC3339 (DateRange.Start dr) of
        None \<Rightarrow> Some (ScheduleStartInvalid path i (DateRange.Start dr))
      | Some start \<Rightarrow>
          (case Parse_RFC3339 (DateRange.End dr) of
             None \<Rightarrow> Some (ScheduleEndInvalid path i (DateRange.End dr))
           | Some end' \<Rightarrow>
               if \<not> Before start end' then Some (ScheduleOrder path i)
               else validate_ranges path (Suc i) rest))"

definition days :: "string list" where
  "days = [''mon'', ''tue'', ''wed'', ''thu'', ''fri'', ''sat'', ''sun'']"

definition hours :: "Config \<Rightarrow> bool" where
  "hours conf = (StartHours conf \<noteq> [] \<and> EndHours conf \<noteq> [])"

definition weekly :: "Config \<Rightarrow> bool" where
  "weekly conf = (WeeklySchedule conf \<noteq> [])"

definition dates :: "Config \<Rightarrow> bool" where
  "dates conf = (Schedule conf \<noteq> [])"

definition Validate :: "Config \<Rightarrow> string \<Rightarrow> error + string list" where
  "Validate conf path =
     (if Camera conf = [] then Inl (FieldRequired path ''camera'')
      else if \<not> (hours conf \<or> weekly conf \<or> dates conf) then Inl (NoSchedule path)
      else if hours conf \<and> Parse_1504 (StartHours conf) = None
        then Inl (InvalidStartHours path (StartHours conf))
      else if hours conf \<and> Parse_1504 (EndHours conf) = None
        then Inl (InvalidEndHours path (EndHours conf))
      else
        (case (if weekly conf then validate_days path (WeeklySchedule conf) days else None) of
           Some e \<Rightarrow> Inl e
         | None \<Rightarrow>
             (case (if dates conf then validate_ranges path 0 (Schedule conf) else None) of
                Some e \<Rightarrow> Inl e
              | None \<Rightarrow> Inr [Camera conf])))"

text \<open>
  The inner \<open>camera.Camera\<close>, as far as the wrapper calls it: \<open>Image\<close> and \<open>Properties\<close>,
  each with the tuple it returns (\<open>None\<close> is the nil error, \<open>[]\<close> the nil byte slice).
\<close>

record ImageMetadata =
  MimeType :: string

record camera_Properties =
  SupportsPCD :: bool
  ImageType :: string
  MimeTypes :: "string list"

type_synonym image_result = "8 word list \<times> ImageMetadata \<times> error option"

record Camera_iface =
  cam_Image :: "string \<Rightarrow> extra \<Rightarrow> image_result"
  cam_Properties :: "camera_Properties \<times> error option"

record timedCamera =
  name :: string
  cfg :: Config
  inner :: Camera_iface

text \<open>
  \<open>newTimedCamera\<close>, on the native configuration: \<open>deps\<close> are the resolved dependencies by
  name, \<open>rname\<close> the resource name.
\<close>

definition newTimedCamera ::
    "(string \<times> Camera_iface) list \<Rightarrow> string \<Rightarrow> Config \<Rightarrow> error + timedCamera" where
  "newTimedCamera deps rname conf =
     (case Validate conf rname of
        Inl err \<Rightarrow> Inl err
      | Inr _ \<Rightarrow>
          (case map_of deps (Camera conf) of
             None \<Rightarrow> Inl (ResolveFailed rname (Camera conf))
           | Some innerCam \<Rightarrow> Inr \<lparr>name = rname, cfg = conf, inner = innerCam\<rparr>))"

text \<open>The window test shared by the two clock modes, on the parsed (or zero) clocks.\<close>

definition clock_of :: "Clock option \<Rightarrow> Clock" where
  "clock_of r = (case r of None \<Rightarrow> zero_Clock | Some c \<Rightarrow> c)"

definition time_of :: "Time option \<Rightarrow> Time" where
  "time_of r = (case r of None \<Rightarrow> zero_Time | Some t \<Rightarrow> t)"

text \<open>The loop over \<open>c.cfg.Schedule\<close> in \<open>inWindow\<close>; parse errors are dropped, as in the code.\<close>

fun in_ranges :: "DateRange list \<Rightarrow> Time \<Rightarrow> bool" where
  "in_ranges [] t = False"
| "in_ranges (dr # rest) t =
     (let start = time_of (Parse_RFC3339 (DateRange.Start dr));
          end' = time_of (Parse_RFC3339 (DateRange.End dr))
      in if \<not> Before t start \<and> \<not> After t end' then True else in_ranges rest t)"

definition inWindow :: "timedCamera \<Rightarrow> Time \<Rightarrow> bool" where
  "inWindow c t =
     (if StartHours (cfg c) \<noteq> [] \<and> EndHours (cfg c) \<noteq> [] then
        (let sh = clock_of (Parse_1504 (StartHours (cfg c)));
             eh = clock_of (Parse_1504 (EndHours (cfg c)));
             start = Date_on t (Hour sh) (Minute sh) 0;
             end0 = Date_on t (Hour eh) (Minute eh) 0;
             end' = (if After start end0 then Add end0 (24 * Hour_ns) else end0)
         in \<not> Before t start \<and> \<not> After t end')
      else
        (case (if WeeklySchedule (cfg c) \<noteq> []
               then map_of (WeeklySchedule (cfg c)) (ToLower (take 3 (Weekday_String t)))
               else None) of
           Some sh \<Rightarrow>
             (let ts = clock_of (Parse_150405 (ScheduleHours.Start sh));
                  te = clock_of (Parse_150405 (ScheduleHours.End sh));
                  start = Date_on t (Hour ts) (Minute ts) (Second ts);
                  end0 = Date_on t (Hour te) (Minute te) (Second te);
                  end' = (if After start end0 then Add end0 (24 * Hour_ns) else end0)
              in \<not> Before t start \<and> \<not> After t end')
         | None \<Rightarrow> in_ranges (Schedule (cfg c)) t))"

text \<open>
  \<open>timedCamera.Image\<close>, with the value of \<open>time.Now()\<close> as the argument \<open>now\<close>.
\<close>

definition Image_camera :: "timedCamera \<Rightarrow> Time \<Rightarrow> string \<Rightarrow> extra \<Rightarrow> image_result" where
  "Image_camera c now mimeType extra =
     (if fromDataManagement extra \<and> \<not> inWindow c now
      then ([], \<lparr>MimeType = []\<rparr>, Some ErrNoCaptureToStore)
      else cam_Image (inner c) mimeType extra)"

text \<open>
  The unimplemented operations; the zero \<open>resource.ResponseMetadata\<close> of \<open>Images\<close> is left
  out of its result. A named image is a source name with the image bytes, a point cloud a
  list of points; neither is ever built.
\<close>

type_synonym NamedImage = "string \<times> 8 word list"

type_synonym PointCloud = "(int \<times> int \<times> int) list"

definition Images :: "timedCamera \<Rightarrow> NamedImage list \<times> error option" where
  "Images c = ([], Some ErrUnimplemented)"

definition NextPointCloud :: "timedCamera \<Rightarrow> PointCloud option \<times> error option" where
  "NextPointCloud c = (None, Some ErrUnimplemented)"

definition DoCommand :: "timedCamera \<Rightarrow> (string \<times> iface) list option \<Rightarrow> extra \<times> error option" where
  "DoCommand c cmd = (None, Some ErrUnimplemented)"

definition Properties :: "timedCamera \<Rightarrow> camera_Properties \<times> error option" where
  "Properties c =
     (case cam_Properties (inner c) of
        (p, err) \<Rightarrow> if err = None then (p\<lparr>SupportsPCD := False\<rparr>, err) else (p, err))"

section \<open>Notions of the properties, and concrete inputs\<close>

text \<open>Nanoseconds since midnight of \<open>t\<close> on its own calendar day: its wall clock.\<close>

definition local_nano :: "Time \<Rightarrow> int" where
  "local_nano t = unix_nano t + zone_offset t * Second_ns - local_day t * 86400 * Second_ns"

text \<open>The wall clock \<open>h:m:s\<close> in nanoseconds since midnight.\<close>

definition clock_nano :: "nat \<Rightarrow> nat \<Rightarrow> nat \<Rightarrow> int" where
  "clock_nano h m s = (int h * 3600 + int m * 60 + int s) * Second_ns"

text \<open>The instant \<open>t\<close> lies in the listed range, both ends included.\<close>

definition within :: "DateRange \<Rightarrow> Time \<Rightarrow> bool" where
  "within dr t =
     (unix_nano (time_of (Parse_RFC3339 (DateRange.Start dr))) \<le> unix_nano t \<and>
      unix_nano t \<le> unix_nano (time_of (Parse_RFC3339 (DateRange.End dr))))"

text \<open>The instant an RFC 3339 timestamp denotes, in the zone the timestamp names.\<close>

definition instant :: "string \<Rightarrow> Time" where
  "instant s = time_of (Parse_RFC3339 s)"

text \<open>An inner camera that returns a fixed frame and supports point clouds.\<close>

definition example_camera :: Camera_iface where
  "example_camera =
     \<lparr>cam_Image = (\<lambda>mimeType extra. ([137, 80, 78, 71], \<lparr>MimeType = mimeType\<rparr>, None)),
      cam_Properties =
        (\<lparr>SupportsPCD = True, ImageType = ''color'', MimeTypes = [''image/png'']\<rparr>, None)\<rparr>"

text \<open>An inner camera whose calls fail.\<close>

definition offline_camera :: Camera_iface where
  "offline_camera =
     \<lparr>cam_Image = (\<lambda>mimeType extra. ([], \<lparr>MimeType = []\<rparr>, Some (OtherError ''offline''))),
      cam_Properties =
        (\<lparr>SupportsPCD = True, ImageType = [], MimeTypes = []\<rparr>, Some (OtherError ''offline''))\<rparr>"

definition hours_camera :: "string \<Rightarrow> string \<Rightarrow> timedCamera" where
  "hours_camera start end' =
     \<lparr>name = ''gated'',
      cfg = \<lparr>Camera = ''cam'', StartHours = start, EndHours = end', WeeklySchedule = [],
             Schedule = []\<rparr>,
      inner = example_camera\<rparr>"

definition ranges_camera :: "(string \<times> ScheduleHours) list \<Rightarrow> DateRange list \<Rightarrow> timedCamera" where
  "ranges_camera ws rs =
     \<lparr>name = ''gated'',
      cfg = \<lparr>Camera = ''cam'', StartHours = [], EndHours = [], WeeklySchedule = ws, Schedule = rs\<rparr>,
      inner = example_camera\<rparr>"

definition hours_sensor :: "string \<Rightarrow> string \<Rightarrow> timeSensor" where
  "hours_sensor start end' =
     \<lparr>timeSensor.name = ''sync'',
      cfg = \<lparr>sensor_Config.StartHours = start, EndHours = end'\<rparr>\<rparr>"

definition hours_stream :: "string \<Rightarrow> string \<Rightarrow> (string, unit) timedStream" where
  "hours_stream start end' =
     \<lparr>cameraStream = (\<lambda>ctx. (Some ''frame'', Some (), None)),
      ts_c = \<lparr>stream_Config.Camera = ''cam'', StartHours = start, EndHours = end'\<rparr>\<rparr>"

text \<open>A formatter for the closed instances; the properties do not read its strings.\<close>

definition plain_format :: "Time \<Rightarrow> string" where
  "plain_format t = []"

text \<open>The extra parameters of a call of the scheduled-capture subsystem.\<close>

definition marked :: extra where
  "marked = Some [(''fromDataManagement'', VBool True)]"

definition new_year_ranges :: "DateRange list" where
  "new_year_ranges = [\<lparr>Start = ''2024-01-01T00:00:00Z'', End = ''2024-01-02T00:00:00Z''\<rparr>]"

definition full_week :: "(string \<times> ScheduleHours) list" where
  "full_week =
     map (\<lambda>day. (day, \<lparr>ScheduleHours.Start = ''08:00:00'', End = ''18:00:00''\<rparr>)) days"

definition week_with :: "string \<Rightarrow> ScheduleHours \<Rightarrow> (string \<times> ScheduleHours) list" where
  "week_with day sh = map (\<lambda>(d, h). (d, if d = day then sh else h)) full_week"

definition week_without :: "string \<Rightarrow> (string \<times> ScheduleHours) list" where
  "week_without day = filter (\<lambda>(d, h). d \<noteq> day) full_week"

definition weekly_config :: "(string \<times> ScheduleHours) list \<Rightarrow> Config" where
  "weekly_config ws =
     \<lparr>Camera = ''cam'', StartHours = [], EndHours = [], WeeklySchedule = ws, Schedule = []\<rparr>"

definition hours_and_dates :: Config where
  "hours_and_dates =
     \<lparr>Camera = ''cam'', StartHours = ''08:00'', EndHours = ''18:00'', WeeklySchedule = [],
      Schedule = new_year_ranges\<rparr>"

definition no_schedule :: Config where
  "no_schedule =
     \<lparr>Camera = ''cam'', StartHours = [], EndHours = [], WeeklySchedule = [], Schedule = []\<rparr>"

section \<open>The window on the wall clock\<close>

lemmas parse_defs = Parse_1504_def Parse_150405_def Parse_RFC3339_def isDigit_def digit_def
  days_from_civil_def daysIn_def isLeap_def

lemmas time_defs = Before_def After_def Add_def Date_on_def local_day_def Second_ns_def
  Hour_ns_def time_of_def clock_of_def zero_Time_def zero_Clock_def instant_def

lemmas config_defs = weekly_config_def full_week_def week_with_def week_without_def days_def
  weekly_def hours_def dates_def new_year_ranges_def hours_and_dates_def no_schedule_def

lemmas fixture_defs = hours_camera_def ranges_camera_def hours_sensor_def hours_stream_def
  example_camera_def offline_camera_def plain_format_def marked_def

lemma local_nano_bounds: "0 \<le> local_nano t \<and> local_nano t < 86400 * Second_ns"
proof -
  define u where "u = unix_nano t"
  define q where "q = u div 1000000000"
  define r where "r = u mod 1000000000"
  define a where "a = q + zone_offset t"
  define d where "d = a div 86400"
  define k where "k = a mod 86400"
  have u: "u = q * 1000000000 + r" by (simp add: q_def r_def)
  have a: "a = d * 86400 + k" by (simp add: d_def k_def)
  have r: "0 \<le> r" "r < 1000000000" by (simp_all add: r_def)
  have k: "0 \<le> k" "k < 86400" by (simp_all add: k_def)
  have ld: "local_day t = d"
    by (simp add: local_day_def Second_ns_def d_def a_def q_def u_def)
  have "local_nano t = u + zone_offset t * 1000000000 - d * 86400 * 1000000000"
    by (simp add: local_nano_def ld Second_ns_def u_def)
  also have "\<dots> = r + k * 1000000000"
    using u a a_def by (simp add: algebra_simps)
  finally have "local_nano t = r + k * 1000000000" .
  with r k show ?thesis unfolding Second_ns_def by linarith
qed

lemma not_Before_Date_on:
  "(\<not> Before t (Date_on t h m s)) = (clock_nano h m s \<le> local_nano t)"
  unfolding Before_def Date_on_def local_nano_def clock_nano_def Second_ns_def
  by (auto simp: algebra_simps)

lemma not_After_Date_on:
  "(\<not> After t (Date_on t h m s)) = (local_nano t \<le> clock_nano h m s)"
  unfolding After_def Date_on_def local_nano_def clock_nano_def Second_ns_def
  by (auto simp: algebra_simps)

lemma not_After_Date_on_next_day:
  "\<not> After t (Add (Date_on t h m s) (24 * Hour_ns))"
  using local_nano_bounds[of t]
  unfolding After_def Add_def Date_on_def local_nano_def Hour_ns_def Second_ns_def
  by (simp add: algebra_simps)

lemma After_Date_on_Date_on:
  "After (Date_on t h m s) (Date_on t h' m' s') = (clock_nano h' m' s' < clock_nano h m s)"
  unfolding After_def Date_on_def clock_nano_def Second_ns_def
  by (auto simp: algebra_simps)

text \<open>
  The daily window of \<open>inWindow\<close> on the wall clock of \<open>t\<close>: from the start clock to the end
  clock, both included, when the end is not earlier; from the start clock to midnight
  otherwise.
\<close>

lemma inWindow_hours:
  assumes "StartHours (cfg c) \<noteq> []" and "EndHours (cfg c) \<noteq> []"
    and "Parse_1504 (StartHours (cfg c)) = Some sh"
    and "Parse_1504 (EndHours (cfg c)) = Some eh"
  shows "inWindow c t =
           (clock_nano (Hour sh) (Minute sh) 0 \<le> local_nano t \<and>
            (clock_nano (Hour eh) (Minute eh) 0 < clock_nano (Hour sh) (Minute sh) 0 \<or>
             local_nano t \<le> clock_nano (Hour eh) (Minute eh) 0))"
  using assms
  by (simp add: inWindow_def clock_of_def Let_def not_Before_Date_on not_After_Date_on
      not_After_Date_on_next_day After_Date_on_Date_on)


text \<open>The window of the second \<open>Readings\<close> excludes both ends.\<close>

lemma Readings_within_strict:
  assumes "Parse_1504 (sensor_Config.StartHours (timeSensor.cfg s)) = Some st"
    and "Parse_1504 (sensor_Config.EndHours (timeSensor.cfg s)) = Some et"
  shows "Readings_within s t extra =
           Inr [(''within_time_range'',
                 VBool (clock_nano (Hour st) (Minute st) 0 < local_nano t \<and>
                        local_nano t < clock_nano (Hour et) (Minute et) 0))]"
  using assms not_After_Date_on[of t "Hour st" "Minute st" 0]
    not_Before_Date_on[of t "Hour et" "Minute et" 0]
  by (auto simp add: Readings_within_def Let_def)

text \<open>
  Layout \<open>15:04:05\<close> is more lenient than the pattern HH:MM:SS: \<open>time.Parse\<close> also takes
  a one-digit hour and a fractional second.
\<close>

lemma Parse_150405_lenient:
  "Parse_150405 ''8:00:00'' = Some \<lparr>Hour = 8, Minute = 0, Second = 0\<rparr> \<and>
   Parse_150405 ''08:00:00.5'' = Some \<lparr>Hour = 8, Minute = 0, Second = 0\<rparr> \<and>
   Parse_150405 ''08:00'' = None \<and> Parse_150405 ''24:00:00'' = None"
  by (simp add: parse_defs)

lemma in_ranges_iff: "in_ranges rs t = (\<exists>dr \<in> set rs. within dr t)"
  by (induction rs) (auto simp: within_def Before_def After_def Let_def)

lemma validate_days_fails:
  assumes "day \<in> set ds"
    and "map_of ws day = None \<or>
         (\<exists>sh. map_of ws day = Some sh \<and>
            (ScheduleHours.Start sh = [] \<or> ScheduleHours.End sh = [] \<or>
             Parse_150405 (ScheduleHours.Start sh) = None \<or>
             Parse_150405 (ScheduleHours.End sh) = None))"
  shows "validate_days path ws ds \<noteq> None"
  using assms by (induction ds) (auto split: option.splits)

section \<open>The claims\<close>

subsection \<open>C1: the overnight window\<close>

text \<open>
  C1 says that a daily window whose end is earlier than its start spans midnight, so that
  with 22:00 to 06:00 the instants 23:00 and 02:00 are in the window and 12:00 is not.
  The code anchors start and end to the calendar day of the instant itself and moves the end
  to the next day, so the part of the window after midnight is never reached: for every
  daily configuration whose end clock is earlier than its start clock, an instant whose wall
  clock is at or before the end clock is not in the window.
\<close>

theorem overnight_window_misses_early_morning:
  assumes "StartHours (cfg c) \<noteq> []" and "EndHours (cfg c) \<noteq> []"
    and "Parse_1504 (StartHours (cfg c)) = Some sh"
    and "Parse_1504 (EndHours (cfg c)) = Some eh"
    and "clock_nano (Hour eh) (Minute eh) 0 < clock_nano (Hour sh) (Minute sh) 0"
    and "local_nano t \<le> clock_nano (Hour eh) (Minute eh) 0"
  shows "inWindow c t = False"
  using assms by (simp add: inWindow_hours)

text \<open>
  With 22:00 to 06:00: 02:00 of the following night is not in the window (nor does the sensor
  report \<open>should_sync\<close> then), 23:00 is, 12:00 is not.
\<close>

theorem overnight_window_misses_early_morning_witness:
  "Parse_1504 ''22:00'' = Some \<lparr>Hour = 22, Minute = 0, Second = 0\<rparr> \<and>
   Parse_1504 ''06:00'' = Some \<lparr>Hour = 6, Minute = 0, Second = 0\<rparr> \<and>
   local_nano (instant ''2024-01-02T02:00:00Z'') = clock_nano 2 0 0 \<and>
   inWindow (hours_camera ''22:00'' ''06:00'') (instant ''2024-01-02T02:00:00Z'') = False \<and>
   inWindow (hours_camera ''22:00'' ''06:00'') (instant ''2024-01-01T23:00:00Z'') = True \<and>
   inWindow (hours_camera ''22:00'' ''06:00'') (instant ''2024-01-01T12:00:00Z'') = False \<and>
   map_of (projr (Readings plain_format (hours_sensor ''22:00'' ''06:00'')
                    (instant ''2024-01-02T02:00:00Z'') marked)) ''should_sync''
     = Some (VBool False)"
proof -
  let ?c = "hours_camera ''22:00'' ''06:00''"
  let ?t = "instant ''2024-01-02T02:00:00Z''"
  have s: "Parse_1504 ''22:00'' = Some \<lparr>Hour = 22, Minute = 0, Second = 0\<rparr>"
    by (simp add: parse_defs)
  have e: "Parse_1504 ''06:00'' = Some \<lparr>Hour = 6, Minute = 0, Second = 0\<rparr>"
    by (simp add: parse_defs)
  have n: "local_nano ?t = clock_nano 2 0 0"
    by (simp add: local_nano_def clock_nano_def parse_defs time_defs)
  have "inWindow ?c ?t = False"
    using overnight_window_misses_early_morning [of ?c "\<lparr>Hour = 22, Minute = 0, Second = 0\<rparr>"
        "\<lparr>Hour = 6, Minute = 0, Second = 0\<rparr>" ?t] s e n
    by (simp add: hours_camera_def clock_nano_def Second_ns_def)
  moreover have "inWindow ?c (instant ''2024-01-01T23:00:00Z'') = True"
    by (simp add: inWindow_def hours_camera_def parse_defs time_defs)
  moreover have "inWindow ?c (instant ''2024-01-01T12:00:00Z'') = False"
    by (simp add: inWindow_def hours_camera_def parse_defs time_defs)
  moreover have "map_of (projr (Readings plain_format (hours_sensor ''22:00'' ''06:00'') ?t marked))
      ''should_sync'' = Some (VBool False)"
    by (simp add: Readings_def hours_sensor_def parse_defs time_defs)
  ultimately show ?thesis using s e n by blast
qed

subsection \<open>C2: what a marked call returns\<close>




subsection \<open>C3: the ends of the daily window\<close>

text \<open>
  C3 says that the daily window includes both of its ends: with 08:00 to 18:00, exactly 08:00
  and exactly 18:00 are in the window. \<open>inWindow\<close> and the first \<open>Readings\<close> do so
  (\<open>inWindow_hours\<close>, \<open>Readings_should_sync\<close>), but the second \<open>Readings\<close> of the sensor
  file compares strictly: for every configuration that parses, an instant whose wall clock is
  exactly the start clock or exactly the end clock is reported as not within the range.
\<close>

theorem Readings_within_excludes_boundaries:
  assumes "Parse_1504 (sensor_Config.StartHours (timeSensor.cfg s)) = Some st"
    and "Parse_1504 (sensor_Config.EndHours (timeSensor.cfg s)) = Some et"
    and "local_nano t = clock_nano (Hour st) (Minute st) 0 \<or>
         local_nano t = clock_nano (Hour et) (Minute et) 0"
  shows "Readings_within s t extra = Inr [(''within_time_range'', VBool False)]"
  using assms by (auto simp: Readings_within_strict)

text \<open>
  With 08:00 to 18:00: \<open>inWindow\<close> gives the five answers of the claim, and the second
  \<open>Readings\<close> reports exactly 08:00 and exactly 18:00 as outside.
\<close>

theorem Readings_within_excludes_boundaries_witness:
  "inWindow (hours_camera ''08:00'' ''18:00'') (instant ''2024-01-01T08:00:00Z'') = True \<and>
   inWindow (hours_camera ''08:00'' ''18:00'') (instant ''2024-01-01T18:00:00Z'') = True \<and>
   inWindow (hours_camera ''08:00'' ''18:00'') (instant ''2024-01-01T12:00:00Z'') = True \<and>
   inWindow (hours_camera ''08:00'' ''18:00'') (instant ''2024-01-01T07:59:00Z'') = False \<and>
   inWindow (hours_camera ''08:00'' ''18:00'') (instant ''2024-01-01T18:01:00Z'') = False \<and>
   local_nano (instant ''2024-01-01T08:00:00Z'') = clock_nano 8 0 0 \<and>
   local_nano (instant ''2024-01-01T18:00:00Z'') = clock_nano 18 0 0 \<and>
   Readings_within (hours_sensor ''08:00'' ''18:00'') (instant ''2024-01-01T08:00:00Z'') None
     = Inr [(''within_time_range'', VBool False)] \<and>
   Readings_within (hours_sensor ''08:00'' ''18:00'') (instant ''2024-01-01T18:00:00Z'') None
     = Inr [(''within_time_range'', VBool False)]"
proof -
  let ?c = "hours_camera ''08:00'' ''18:00''"
  let ?s = "hours_sensor ''08:00'' ''18:00''"
  let ?a = "instant ''2024-01-01T08:00:00Z''"
  let ?b = "instant ''2024-01-01T18:00:00Z''"
  have s: "Parse_1504 (sensor_Config.StartHours (timeSensor.cfg ?s))
      = Some \<lparr>Hour = 8, Minute = 0, Second = 0\<rparr>"
    by (simp add: hours_sensor_def parse_defs)
  have e: "Parse_1504 (sensor_Config.EndHours (timeSensor.cfg ?s))
      = Some \<lparr>Hour = 18, Minute = 0, Second = 0\<rparr>"
    by (simp add: hours_sensor_def parse_defs)
  have a: "local_nano ?a = clock_nano 8 0 0"
    by (simp add: local_nano_def clock_nano_def parse_defs time_defs)
  have b: "local_nano ?b = clock_nano 18 0 0"
    by (simp add: local_nano_def clock_nano_def parse_defs time_defs)
  have "Readings_within ?s ?a None = Inr [(''within_time_range'', VBool False)]"
    using Readings_within_excludes_boundaries [OF s e, of ?a None] a by simp
  moreover have "Readings_within ?s ?b None = Inr [(''within_time_range'', VBool False)]"
    using Readings_within_excludes_boundaries [OF s e, of ?b None] b by simp
  moreover have "inWindow ?c ?a = True" "inWindow ?c ?b = True"
    "inWindow ?c (instant ''2024-01-01T12:00:00Z'') = True"
    "inWindow ?c (instant ''2024-01-01T07:59:00Z'') = False"
    "inWindow ?c (instant ''2024-01-01T18:01:00Z'') = False"
    by (simp_all add: inWindow_def hours_camera_def parse_defs time_defs)
  ultimately show ?thesis using a b by blast
qed

subsection \<open>C4: how many schedule variants a valid configuration has\<close>

text \<open>
  C4 as stated: a configuration that populates more than one variant would be rejected. A
  configuration with both the daily hours and a date range is accepted by \<open>Validate\<close>, and
  \<open>newTimedCamera\<close> builds the camera from it.
\<close>

theorem two_variants_accepted:
  "Validate hours_and_dates ''gated'' = Inr [''cam''] \<and>
   hours hours_and_dates \<and> \<not> weekly hours_and_dates \<and> dates hours_and_dates \<and>
   newTimedCamera [(''cam'', example_camera)] ''gated'' hours_and_dates
     = Inr \<lparr>name = ''gated'', cfg = hours_and_dates, inner = example_camera\<rparr>"
  by (simp add: Validate_def newTimedCamera_def config_defs parse_defs time_defs)

text \<open>
  C4, amended: validation accepts a configuration only if at least one of the three schedule
  variants has its fields populated; a configuration that populates none is rejected by
  \<open>Validate\<close> and at load time by \<open>newTimedCamera\<close>.
\<close>

theorem accepted_has_a_variant:
  "(Validate conf path = Inr deps \<longrightarrow> hours conf \<or> weekly conf \<or> dates conf) \<and>
   (newTimedCamera ds path conf = Inr cam \<longrightarrow> hours conf \<or> weekly conf \<or> dates conf) \<and>
   (\<not> (hours conf \<or> weekly conf \<or> dates conf) \<longrightarrow>
      isl (Validate conf path) \<and> isl (newTimedCamera ds path conf))"
  by (auto simp: Validate_def newTimedCamera_def split: if_splits sum.splits option.splits)

theorem accepted_has_a_variant_witness:
  "Validate hours_and_dates ''gated'' = Inr [''cam''] \<and>
   (hours hours_and_dates \<or> weekly hours_and_dates \<or> dates hours_and_dates) \<and>
   \<not> (hours no_schedule \<or> weekly no_schedule \<or> dates no_schedule) \<and>
   Validate no_schedule ''gated'' = Inl (NoSchedule ''gated'') \<and>
   isl (newTimedCamera [(''cam'', example_camera)] ''gated'' no_schedule)"
proof -
  have a: "Validate hours_and_dates ''gated'' = Inr [''cam'']"
    by (simp add: Validate_def config_defs parse_defs time_defs)
  have n: "\<not> (hours no_schedule \<or> weekly no_schedule \<or> dates no_schedule)"
    by (simp add: config_defs)
  have v: "Validate no_schedule ''gated'' = Inl (NoSchedule ''gated'')"
    by (simp add: Validate_def config_defs)
  from accepted_has_a_variant [of hours_and_dates "''gated''" "[''cam'']"] a
  have "hours hours_and_dates \<or> weekly hours_and_dates \<or> dates hours_and_dates"
    by blast
  moreover
  from accepted_has_a_variant [of no_schedule "''gated''" _ "[(''cam'', example_camera)]"] n
  have "isl (newTimedCamera [(''cam'', example_camera)] ''gated'' no_schedule)"
    by blast
  ultimately show ?thesis using a n v by blast
qed

subsection \<open>C5: calls without the marker\<close>

text \<open>
  C5: for every configuration and every instant, a data-producing call whose extra
  parameters do not carry the scheduled-capture marker is delegated to the inner capability,
  whatever the window: \<open>Image\<close> returns the result of the inner camera, and \<open>Next\<close> the next
  image of the inner stream, both when the context has no extra and when the extra has no
  marker.
\<close>

theorem unmarked_call_delegates:
  assumes "\<not> fromDataManagement extra"
  shows "Image_camera c now mimeType extra = cam_Image (inner c) mimeType extra \<and>
         Next ts now None = cameraStream ts None \<and>
         Next ts now (Some extra) = next_image ts (Some extra)"
  using assms by (simp add: Image_camera_def Next_def)

text \<open>Outside the window 08:00 to 18:00, at 20:00, unmarked calls still return the frame.\<close>

theorem unmarked_call_delegates_witness:
  "\<not> fromDataManagement None \<and>
   inWindow (hours_camera ''08:00'' ''18:00'') (instant ''2024-01-01T20:00:00Z'') = False \<and>
   Image_camera (hours_camera ''08:00'' ''18:00'') (instant ''2024-01-01T20:00:00Z'') ''image/png'' None
     = ([137, 80, 78, 71], \<lparr>MimeType = ''image/png''\<rparr>, None) \<and>
   Next (hours_stream ''08:00'' ''18:00'') (instant ''2024-01-01T20:00:00Z'') None
     = (Some ''frame'', Some (), None) \<and>
   Next (hours_stream ''08:00'' ''18:00'') (instant ''2024-01-01T20:00:00Z'') (Some None)
     = (Some ''frame'', Some (), None) \<and>
   Next (hours_stream ''08:00'' ''18:00'') (instant ''2024-01-01T20:00:00Z'') (Some marked)
     = (None, None, Some ErrNoCaptureToStore)"
proof -
  let ?c = "hours_camera ''08:00'' ''18:00''"
  let ?ts = "hours_stream ''08:00'' ''18:00''"
  let ?out = "instant ''2024-01-01T20:00:00Z''"
  have n: "\<not> fromDataManagement None"
    by (simp add: fromDataManagement_def)
  have o: "inWindow ?c ?out = False"
    by (simp add: inWindow_def hours_camera_def parse_defs time_defs)
  have g: "Next ?ts ?out (Some marked) = (None, None, Some ErrNoCaptureToStore)"
    by (simp add: Next_def fromDataManagement_def fixture_defs parse_defs time_defs)
  show ?thesis
    using unmarked_call_delegates [OF n, of ?c ?out "''image/png''" ?ts] n o g
    by (simp add: next_image_def fixture_defs)
qed

subsection \<open>C6: the explicit ranges\<close>

text \<open>
  C6: in explicit-range mode (the daily hours are not both set, and the weekly schedule is
  empty or has no entry for the weekday of the instant, so that the loop over the ranges is
  reached) an instant is in the window if and only if it lies within at least one listed
  range, both ends included.
\<close>

theorem explicit_ranges_inclusive:
  assumes "\<not> (StartHours (cfg c) \<noteq> [] \<and> EndHours (cfg c) \<noteq> [])"
    and "WeeklySchedule (cfg c) = [] \<or>
         map_of (WeeklySchedule (cfg c)) (ToLower (take 3 (Weekday_String t))) = None"
  shows "inWindow c t = (\<exists>dr \<in> set (Schedule (cfg c)). within dr t)"
  using assms by (auto simp: inWindow_def in_ranges_iff)

text \<open>
  With the one range from 2024-01-01T00:00:00Z to 2024-01-02T00:00:00Z: both ends are in the
  window, one second after the end is not.
\<close>

theorem explicit_ranges_inclusive_witness:
  "inWindow (ranges_camera [] new_year_ranges) (instant ''2024-01-01T00:00:00Z'') \<and>
   inWindow (ranges_camera [] new_year_ranges) (instant ''2024-01-02T00:00:00Z'') \<and>
   \<not> inWindow (ranges_camera [] new_year_ranges) (instant ''2024-01-02T00:00:01Z'')"
proof -
  let ?c = "ranges_camera [] new_year_ranges"
  have m: "\<not> (StartHours (cfg ?c) \<noteq> [] \<and> EndHours (cfg ?c) \<noteq> [])"
    by (simp add: ranges_camera_def)
  have w: "WeeklySchedule (cfg ?c) = [] \<or>
           map_of (WeeklySchedule (cfg ?c)) (ToLower (take 3 (Weekday_String t))) = None"
    for t by (simp add: ranges_camera_def)
  have s: "Schedule (cfg ?c) = new_year_ranges"
    by (simp add: ranges_camera_def)
  have a: "within (hd new_year_ranges) (instant ''2024-01-01T00:00:00Z'')"
    by (simp add: new_year_ranges_def within_def parse_defs time_defs)
  have b: "within (hd new_year_ranges) (instant ''2024-01-02T00:00:00Z'')"
    by (simp add: new_year_ranges_def within_def parse_defs time_defs)
  have c: "\<not> within (hd new_year_ranges) (instant ''2024-01-02T00:00:01Z'')"
    by (simp add: new_year_ranges_def within_def parse_defs time_defs)
  have l: "set new_year_ranges = {hd new_year_ranges}"
    by (simp add: new_year_ranges_def)
  show ?thesis
    using explicit_ranges_inclusive [OF m w] a b c by (simp add: s l)
qed

subsection \<open>C7: the other operations\<close>

text \<open>
  C7 as stated: \<open>Properties\<close> would return the properties of the inner camera unmodified.
  For an inner camera that supports point clouds it returns them with \<open>SupportsPCD\<close> false.
\<close>

theorem Properties_disables_point_clouds:
  "cam_Properties (inner (hours_camera ''08:00'' ''18:00''))
     = (\<lparr>SupportsPCD = True, ImageType = ''color'', MimeTypes = [''image/png'']\<rparr>, None) \<and>
   Properties (hours_camera ''08:00'' ''18:00'')
     = (\<lparr>SupportsPCD = False, ImageType = ''color'', MimeTypes = [''image/png'']\<rparr>, None) \<and>
   Properties (hours_camera ''08:00'' ''18:00'')
     \<noteq> cam_Properties (inner (hours_camera ''08:00'' ''18:00''))"
  by (simp add: Properties_def fixture_defs)

text \<open>
  C7, amended: \<open>Images\<close>, \<open>NextPointCloud\<close> and \<open>DoCommand\<close> (of the camera and of the
  sensor) return the explicit error for an operation that is not implemented;
  \<open>Properties\<close> delegates to the inner camera and returns its error unchanged, its
  properties with \<open>SupportsPCD\<close> set to false when the inner call succeeds, and its whole
  result unchanged when it fails.
\<close>

theorem other_operations:
  "Images c = ([], Some ErrUnimplemented) \<and>
   NextPointCloud c = (None, Some ErrUnimplemented) \<and>
   DoCommand c cmd = (None, Some ErrUnimplemented) \<and>
   sensor_DoCommand s cmd = (None, Some ErrUnimplemented) \<and>
   snd (Properties c) = snd (cam_Properties (inner c)) \<and>
   (snd (cam_Properties (inner c)) = None \<longrightarrow>
      fst (Properties c) = (fst (cam_Properties (inner c)))\<lparr>SupportsPCD := False\<rparr>) \<and>
   (snd (cam_Properties (inner c)) \<noteq> None \<longrightarrow> Properties c = cam_Properties (inner c))"
  by (simp add: Images_def NextPointCloud_def DoCommand_def sensor_DoCommand_def Properties_def
      split: prod.splits)

theorem other_operations_witness:
  "snd (cam_Properties example_camera) = None \<and>
   Properties (hours_camera ''08:00'' ''18:00'')
     = (\<lparr>SupportsPCD = False, ImageType = ''color'', MimeTypes = [''image/png'']\<rparr>, None) \<and>
   snd (cam_Properties offline_camera) \<noteq> None \<and>
   Properties ((hours_camera ''08:00'' ''18:00'')\<lparr>inner := offline_camera\<rparr>)
     = cam_Properties offline_camera"
proof -
  let ?c = "hours_camera ''08:00'' ''18:00''"
  let ?d = "?c\<lparr>inner := offline_camera\<rparr>"
  have a: "cam_Properties (inner ?c)
      = (\<lparr>SupportsPCD = True, ImageType = ''color'', MimeTypes = [''image/png'']\<rparr>, None)"
    by (simp add: fixture_defs)
  have b: "snd (cam_Properties offline_camera) \<noteq> None"
    by (simp add: fixture_defs)
  have i: "inner ?c = example_camera" "inner ?d = offline_camera"
    by (simp_all add: fixture_defs)
  show ?thesis
    using other_operations [of ?c None "hours_sensor ''08:00'' ''18:00''"]
      other_operations [of ?d None "hours_sensor ''08:00'' ''18:00''"] a b i
    by (simp add: prod_eq_iff)
qed

subsection \<open>C8: validation of the weekly schedule\<close>

text \<open>
  C8: if the weekly schedule is used, validation fails, and with it the construction of the
  camera at load time, whenever one of the seven weekday entries is missing, has an empty
  start or end, or has a start or end that \<open>time.Parse\<close> does not accept on layout
  \<open>15:04:05\<close>.
\<close>

theorem weekly_validation_rejects:
  assumes "WeeklySchedule conf \<noteq> []"
    and "day \<in> set [''mon'', ''tue'', ''wed'', ''thu'', ''fri'', ''sat'', ''sun'']"
    and "map_of (WeeklySchedule conf) day = None \<or>
         (\<exists>sh. map_of (WeeklySchedule conf) day = Some sh \<and>
            (ScheduleHours.Start sh = [] \<or> ScheduleHours.End sh = [] \<or>
             Parse_150405 (ScheduleHours.Start sh) = None \<or>
             Parse_150405 (ScheduleHours.End sh) = None))"
  shows "isl (Validate conf path) \<and> isl (newTimedCamera ds path conf)"
proof -
  have "day \<in> set days"
    using assms(2) by (simp add: days_def)
  then have "validate_days path (WeeklySchedule conf) days \<noteq> None"
    using assms(3) by (rule validate_days_fails)
  then have "isl (Validate conf path)"
    using assms(1) by (auto simp: Validate_def weekly_def)
  then show ?thesis
    by (auto simp: newTimedCamera_def split: sum.splits)
qed

text \<open>
  The full week validates; without Sunday, with an empty end on Wednesday, or with the start
  \<open>08:00\<close> (no seconds) on Friday, it does not.
\<close>

theorem weekly_validation_rejects_witness:
  "Validate (weekly_config full_week) ''gated'' = Inr [''cam''] \<and>
   map_of (week_without ''sun'') ''sun'' = None \<and>
   isl (Validate (weekly_config (week_without ''sun'')) ''gated'') \<and>
   map_of (week_with ''wed'' \<lparr>ScheduleHours.Start = ''08:00:00'', End = []\<rparr>) ''wed''
     = Some \<lparr>ScheduleHours.Start = ''08:00:00'', End = []\<rparr> \<and>
   isl (Validate (weekly_config (week_with ''wed'' \<lparr>ScheduleHours.Start = ''08:00:00'', End = []\<rparr>))
          ''gated'') \<and>
   map_of (week_with ''fri'' \<lparr>ScheduleHours.Start = ''08:00'', End = ''18:00:00''\<rparr>) ''fri''
     = Some \<lparr>ScheduleHours.Start = ''08:00'', End = ''18:00:00''\<rparr> \<and>
   Parse_150405 ''08:00'' = None \<and>
   isl (Validate (weekly_config (week_with ''fri'' \<lparr>ScheduleHours.Start = ''08:00'', End = ''18:00:00''\<rparr>))
          ''gated'')"
proof -
  let ?wed = "\<lparr>ScheduleHours.Start = ''08:00:00'', End = []\<rparr>"
  let ?fri = "\<lparr>ScheduleHours.Start = ''08:00'', End = ''18:00:00''\<rparr>"
  have ok: "Validate (weekly_config full_week) ''gated'' = Inr [''cam'']"
    by (simp add: Validate_def config_defs parse_defs)
  have p: "Parse_150405 ''08:00'' = None"
    by (simp add: parse_defs)
  have s: "map_of (week_without ''sun'') ''sun'' = None"
    by (simp add: config_defs)
  have w: "map_of (week_with ''wed'' ?wed) ''wed'' = Some ?wed"
    by (simp add: config_defs)
  have f: "map_of (week_with ''fri'' ?fri) ''fri'' = Some ?fri"
    by (simp add: config_defs)
  have "isl (Validate (weekly_config (week_without ''sun'')) ''gated'')"
    using weekly_validation_rejects
      [of "weekly_config (week_without ''sun'')" "''sun''" "''gated''" "[]"] s
    by (simp add: config_defs)
  moreover have "isl (Validate (weekly_config (week_with ''wed'' ?wed)) ''gated'')"
    using weekly_validation_rejects
      [of "weekly_config (week_with ''wed'' ?wed)" "''wed''" "''gated''" "[]"] w
    by (simp add: config_defs)
  moreover have "isl (Validate (weekly_config (week_with ''fri'' ?fri)) ''gated'')"
    using weekly_validation_rejects
      [of "weekly_config (week_with ''fri'' ?fri)" "''fri''" "''gated''" "[]"] f p
    by (simp add: config_defs)
  ultimately show ?thesis using ok p s w f by blast
qed

subsection \<open>C9: a weekday without an entry\<close>




subsection \<open>C10: what counts as the marker\<close>



end
